theory Spec2Isabelle
  imports Complex_Main "HOL-Library.Monad_Syntax" "HOL-Library.List_Lexorder" "HOL-Library.Char_ord"
begin

section \<open>The ordered index: internal/store/skiplist.go\<close>

text \<open>
  Nodes live in a per-list store: a node pointer is the index of the node in \<open>nodes\<close>,
  \<open>None\<close> is Go's \<open>nil\<close>, and an allocation appends a node (Go never reuses the address
  of a node that is still referenced, and an unlinked node simply stays in the store).
  Scores are \<open>float64\<close> in the source; the model takes them as reals, which agrees with
  the source on every comparison of scores that are not NaN.
  An operation returns \<open>None\<close> where the Go code would not return normally: a nil
  dereference, an index out of range, or a traversal that never ends.
\<close>

definition maxLevel :: nat where
  "maxLevel = 32"

definition probability :: real where
  "probability = 0.25"

record skiplistNode =
  member_n :: string
  score :: real
  forward :: "nat option list"
  backward :: "nat option"
  level_n :: nat

record skiplist =
  nodes :: "skiplistNode list"
  head :: nat
  tail :: "nat option"
  length_sl :: int
  level :: nat

definition newSkiplist :: skiplist where
  "newSkiplist =
     \<lparr>nodes = [\<lparr>member_n = [], score = 0, forward = replicate maxLevel None,
                 backward = None, level_n = maxLevel\<rparr>],
      head = 0, tail = None, length_sl = 0, level = 1\<rparr>"

text \<open>Reading through a pointer, and indexing a slice: both can fail.\<close>

definition node_at :: "skiplist \<Rightarrow> nat \<Rightarrow> skiplistNode option" where
  "node_at sl a = (if a < length (nodes sl) then Some (nodes sl ! a) else None)"

definition idx :: "'a list \<Rightarrow> nat \<Rightarrow> 'a option" where
  "idx xs i = (if i < length xs then Some (xs ! i) else None)"

definition put :: "'a list \<Rightarrow> nat \<Rightarrow> 'a \<Rightarrow> 'a list option" where
  "put xs i v = (if i < length xs then Some (xs[i := v]) else None)"

definition set_forward :: "skiplist \<Rightarrow> nat \<Rightarrow> nat \<Rightarrow> nat option \<Rightarrow> skiplist option" where
  "set_forward sl a i p =
     do { n \<leftarrow> node_at sl a;
          f \<leftarrow> put (forward n) i p;
          Some (sl\<lparr>nodes := (nodes sl)[a := n\<lparr>forward := f\<rparr>]\<rparr>) }"

definition set_backward :: "skiplist \<Rightarrow> nat \<Rightarrow> nat option \<Rightarrow> skiplist option" where
  "set_backward sl a p =
     do { n \<leftarrow> node_at sl a;
          Some (sl\<lparr>nodes := (nodes sl)[a := n\<lparr>backward := p\<rparr>]\<rparr>) }"

definition set_score :: "skiplist \<Rightarrow> nat \<Rightarrow> real \<Rightarrow> skiplist option" where
  "set_score sl a s =
     do { n \<leftarrow> node_at sl a;
          Some (sl\<lparr>nodes := (nodes sl)[a := n\<lparr>score := s\<rparr>]\<rparr>) }"

text \<open>
  \<open>randomLevel\<close>: the random source is the stream of the values \<open>rand.Float64()\<close> will
  return; a call consumes the draws it makes and returns the rest of the stream.
\<close>

type_synonym rand = "nat \<Rightarrow> real"

function randomLevelFrom :: "nat \<Rightarrow> rand \<Rightarrow> nat \<times> rand" where
  "randomLevelFrom lvl rnd =
     (if lvl < maxLevel
      then (if rnd 0 < probability
            then randomLevelFrom (lvl + 1) (\<lambda>n. rnd (Suc n))
            else (lvl, \<lambda>n. rnd (Suc n)))
      else (lvl, rnd))"
  by pat_completeness auto
termination
  by (relation "measure (\<lambda>(lvl, rnd). maxLevel - lvl)") auto

definition randomLevel :: "rand \<Rightarrow> nat \<times> rand" where
  "randomLevel rnd = randomLevelFrom 1 rnd"

text \<open>
  The search of \<open>insert\<close> and \<open>delete\<close>. \<open>advance\<close> is the inner loop at level \<open>i\<close>;
  it reads the list without changing it, so it runs forever exactly when it takes more
  steps than there are nodes, which is when its fuel (the number of nodes) runs out.
\<close>

fun advance :: "nat \<Rightarrow> skiplist \<Rightarrow> real \<Rightarrow> string \<Rightarrow> nat \<Rightarrow> nat \<Rightarrow> nat option" where
  "advance 0 sl sc m i cur = None"
| "advance (Suc fuel) sl sc m i cur =
     do { c \<leftarrow> node_at sl cur;
          nxt \<leftarrow> idx (forward c) i;
          case nxt of
            None \<Rightarrow> Some cur
          | Some a \<Rightarrow>
              do { n \<leftarrow> node_at sl a;
                   if score n < sc \<or> (score n = sc \<and> member_n n < m)
                   then advance fuel sl sc m i a
                   else Some cur } }"

fun search :: "nat \<Rightarrow> skiplist \<Rightarrow> real \<Rightarrow> string \<Rightarrow> nat \<Rightarrow> nat option list
    \<Rightarrow> (nat \<times> nat option list) option" where
  "search 0 sl sc m cur update = Some (cur, update)"
| "search (Suc i) sl sc m cur update =
     do { c \<leftarrow> advance (length (nodes sl)) sl sc m i cur;
          u \<leftarrow> put update i (Some c);
          search i sl sc m c u }"

text \<open>\<open>delete\<close>: the unlinking loop (with its \<open>break\<close>) and the loop that lowers the level.\<close>

fun unlink :: "nat list \<Rightarrow> nat option list \<Rightarrow> nat \<Rightarrow> skiplist \<Rightarrow> skiplist option" where
  "unlink [] update cur sl = Some sl"
| "unlink (i # is) update cur sl =
     do { up \<leftarrow> idx update i;
          u \<leftarrow> up;
          un \<leftarrow> node_at sl u;
          f \<leftarrow> idx (forward un) i;
          if f \<noteq> Some cur then Some sl
          else do { cn \<leftarrow> node_at sl cur;
                    cf \<leftarrow> idx (forward cn) i;
                    sl' \<leftarrow> set_forward sl u i cf;
                    unlink is update cur sl' } }"

fun lower_level :: "skiplist \<Rightarrow> nat \<Rightarrow> nat option" where
  "lower_level sl (Suc (Suc l)) =
     do { h \<leftarrow> node_at sl (head sl);
          f \<leftarrow> idx (forward h) (Suc l);
          if f = None then lower_level sl (Suc l) else Some (Suc (Suc l)) }"
| "lower_level sl l = Some l"

definition delete :: "skiplist \<Rightarrow> real \<Rightarrow> string \<Rightarrow> (bool \<times> skiplist) option" where
  "delete sl sc m =
     do { (cur, update) \<leftarrow> search (level sl) sl sc m (head sl) (replicate maxLevel None);
          c \<leftarrow> node_at sl cur;
          current \<leftarrow> idx (forward c) 0;
          case current of
            None \<Rightarrow> Some (False, sl)
          | Some a \<Rightarrow>
              do { n \<leftarrow> node_at sl a;
                   if member_n n \<noteq> m then Some (False, sl)
                   else do {
                     sl1 \<leftarrow> unlink [0..<level sl] update a sl;
                     n1 \<leftarrow> node_at sl1 a;
                     f0 \<leftarrow> idx (forward n1) 0;
                     sl2 \<leftarrow> (case f0 of
                              Some b \<Rightarrow> set_backward sl1 b (backward n1)
                            | None \<Rightarrow> Some (sl1\<lparr>tail := backward n1\<rparr>));
                     l \<leftarrow> lower_level sl2 (level sl2);
                     Some (True, sl2\<lparr>level := l, length_sl := length_sl sl2 - 1\<rparr>) } } }"

text \<open>\<open>insert\<close>: raising the level, linking the new node, and the function itself.\<close>

fun raise_update :: "nat list \<Rightarrow> nat \<Rightarrow> nat option list \<Rightarrow> nat option list option" where
  "raise_update [] h update = Some update"
| "raise_update (i # is) h update =
     do { u \<leftarrow> put update i (Some h); raise_update is h u }"

fun link :: "nat list \<Rightarrow> nat option list \<Rightarrow> nat \<Rightarrow> skiplist \<Rightarrow> skiplist option" where
  "link [] update new sl = Some sl"
| "link (i # is) update new sl =
     do { up \<leftarrow> idx update i;
          u \<leftarrow> up;
          un \<leftarrow> node_at sl u;
          f \<leftarrow> idx (forward un) i;
          sl1 \<leftarrow> set_forward sl new i f;
          sl2 \<leftarrow> set_forward sl1 u i (Some new);
          link is update new sl2 }"

text \<open>
  The recursive call of \<open>insert\<close> follows an assignment of \<open>score\<close> to a node that held
  another score, and nothing before it allocates: each nested call leaves one node fewer
  whose score differs from \<open>score\<close>, so the nesting is at most the number of nodes,
  which is the fuel \<open>insert\<close> gives \<open>insert_rec\<close>.
\<close>

fun insert_rec :: "nat \<Rightarrow> skiplist \<Rightarrow> rand \<Rightarrow> real \<Rightarrow> string
    \<Rightarrow> (bool \<times> skiplist \<times> rand) option" where
  "insert_rec 0 sl rnd sc m = None"
| "insert_rec (Suc fuel) sl rnd sc m =
     do { (cur, update) \<leftarrow> search (level sl) sl sc m (head sl) (replicate maxLevel None);
          c \<leftarrow> node_at sl cur;
          current \<leftarrow> idx (forward c) 0;
          found \<leftarrow> (case current of
                     None \<Rightarrow> Some False
                   | Some a \<Rightarrow> do { n \<leftarrow> node_at sl a; Some (member_n n = m) });
          if found
          then do { a \<leftarrow> current;
                    n \<leftarrow> node_at sl a;
                    sl1 \<leftarrow> set_score sl a sc;
                    if score n = sc then Some (False, sl1, rnd)
                    else do { (_, sl2) \<leftarrow> delete sl1 (score n) m;
                              insert_rec fuel sl2 rnd sc m } }
          else do {
            let (lvl, rnd') = randomLevel rnd;
            update1 \<leftarrow> (if lvl > level sl
                        then raise_update [level sl..<lvl] (head sl) update
                        else Some update);
            let sl1 = (if lvl > level sl then sl\<lparr>level := lvl\<rparr> else sl);
            let new = length (nodes sl1);
            up0 \<leftarrow> idx update1 0;
            let sl2 = sl1\<lparr>nodes := nodes sl1 @
                        [\<lparr>member_n = m, score = sc, forward = replicate lvl None,
                          backward = None, level_n = lvl\<rparr>]\<rparr>;
            sl3 \<leftarrow> link [0..<lvl] update1 new sl2;
            sl4 \<leftarrow> (if up0 = Some (head sl3) then set_backward sl3 new None
                    else set_backward sl3 new up0);
            nn \<leftarrow> node_at sl4 new;
            f0 \<leftarrow> idx (forward nn) 0;
            sl5 \<leftarrow> (case f0 of
                     Some b \<Rightarrow> set_backward sl4 b (Some new)
                   | None \<Rightarrow> Some (sl4\<lparr>tail := Some new\<rparr>));
            Some (True, sl5\<lparr>length_sl := length_sl sl5 + 1\<rparr>, rnd') } }"

definition insert :: "skiplist \<Rightarrow> rand \<Rightarrow> real \<Rightarrow> string \<Rightarrow> (bool \<times> skiplist \<times> rand) option" where
  "insert sl rnd sc m = insert_rec (Suc (length (nodes sl))) sl rnd sc m"

text \<open>The level-0 chain from a pointer: what an iteration of the index visits.\<close>

fun chain :: "nat \<Rightarrow> skiplist \<Rightarrow> nat option \<Rightarrow> (real \<times> string) list option" where
  "chain fuel sl None = Some []"
| "chain 0 sl (Some a) = None"
| "chain (Suc fuel) sl (Some a) =
     do { n \<leftarrow> node_at sl a;
          f \<leftarrow> idx (forward n) 0;
          rest \<leftarrow> chain fuel sl f;
          Some ((score n, member_n n) # rest) }"

definition entries :: "skiplist \<Rightarrow> (real \<times> string) list option" where
  "entries sl =
     do { h \<leftarrow> node_at sl (head sl);
          f \<leftarrow> idx (forward h) 0;
          chain (length (nodes sl)) sl f }"

text \<open>
  \<open>getRange\<close>: \<open>walk\<close> is the loop that moves to the start index and \<open>collect\<close> the
  loop that gathers the nodes; both count their steps, so neither needs fuel.
\<close>

fun walk :: "nat \<Rightarrow> skiplist \<Rightarrow> nat option \<Rightarrow> nat option option" where
  "walk 0 sl current = Some current"
| "walk (Suc n) sl current =
     (case current of
        None \<Rightarrow> Some None
      | Some a \<Rightarrow> do { c \<leftarrow> node_at sl a; f \<leftarrow> idx (forward c) 0; walk n sl f })"

fun collect :: "nat \<Rightarrow> skiplist \<Rightarrow> nat option \<Rightarrow> skiplistNode list option" where
  "collect 0 sl current = Some []"
| "collect (Suc n) sl current =
     (case current of
        None \<Rightarrow> Some []
      | Some a \<Rightarrow>
          do { c \<leftarrow> node_at sl a;
               f \<leftarrow> idx (forward c) 0;
               rest \<leftarrow> collect n sl f;
               Some (c # rest) })"

definition getRange :: "skiplist \<Rightarrow> int \<Rightarrow> int \<Rightarrow> skiplistNode list option" where
  "getRange sl start0 stop0 =
     (let start1 = (if start0 < 0 then length_sl sl + start0 else start0);
          stop1 = (if stop0 < 0 then length_sl sl + stop0 else stop0);
          start = (if start1 < 0 then 0 else start1);
          stop = (if stop1 \<ge> length_sl sl then length_sl sl - 1 else stop1)
      in if start > stop then Some []
         else do { h \<leftarrow> node_at sl (head sl);
                   f \<leftarrow> idx (forward h) 0;
                   current \<leftarrow> walk (nat start) sl f;
                   collect (nat (stop - start + 1)) sl current })"

text \<open>
  The descent of \<open>SortedSet.RangeByScore\<close>. \<open>skip_while\<close> is its inner loop, with the
  test on the next node's score as a parameter (\<open>> max\<close> when reversed, \<open>< min\<close>
  otherwise).
\<close>

fun skip_while :: "nat \<Rightarrow> skiplist \<Rightarrow> (real \<Rightarrow> bool) \<Rightarrow> nat \<Rightarrow> nat \<Rightarrow> nat option" where
  "skip_while 0 sl t i cur = None"
| "skip_while (Suc fuel) sl t i cur =
     do { c \<leftarrow> node_at sl cur;
          nxt \<leftarrow> idx (forward c) i;
          case nxt of
            None \<Rightarrow> Some cur
          | Some a \<Rightarrow>
              do { n \<leftarrow> node_at sl a;
                   if t (score n) then skip_while fuel sl t i a else Some cur } }"

fun descend :: "nat \<Rightarrow> skiplist \<Rightarrow> (real \<Rightarrow> bool) \<Rightarrow> nat \<Rightarrow> nat option" where
  "descend 0 sl t cur = Some cur"
| "descend (Suc i) sl t cur =
     do { c \<leftarrow> skip_while (length (nodes sl)) sl t i cur; descend i sl t c }"

section \<open>Command options: internal/commands/options\<close>

text \<open>
  \<open>strings.ToUpper\<close>, on the ASCII letters; other bytes are left as they are
  (the Go function also maps letters outside ASCII, which no command or option name has).
\<close>

definition upper_char :: "char \<Rightarrow> char" where
  \<comment> \<open>for a lower-case letter, subtracting 32 clears the bit of value 32\<close>
  "upper_char c =
     (if CHR ''a'' \<le> c \<and> c \<le> CHR ''z''
      then (case c of Char b0 b1 b2 b3 b4 b5 b6 b7 \<Rightarrow> Char b0 b1 b2 b3 b4 False b6 b7)
      else c)"

definition ToUpper :: "string \<Rightarrow> string" where
  "ToUpper s = map upper_char s"

record Option_ =
  Name :: string
  Description :: string
  Incompatible :: "string list"

text \<open>
  \<open>active\<close> is a \<open>map[string]bool\<close> that only ever holds \<open>true\<close>. The model keeps its keys
  in the order they were set, and \<open>Set\<close> visits them in that order where Go visits them
  in an unspecified order; the order only decides which of two conflicting options the
  error message names.
\<close>

record Options =
  options :: "string \<rightharpoonup> Option_"
  active :: "string list"

definition NewOptions :: Options where
  "NewOptions = \<lparr>options = Map.empty, active = []\<rparr>"

definition RegisterOption :: "string \<Rightarrow> string \<Rightarrow> string list \<Rightarrow> 'a Options_scheme
    \<Rightarrow> 'a Options_scheme" where
  "RegisterOption name description incompatible os =
     os\<lparr>options := (options os)(name \<mapsto>
          \<lparr>Name = name, Description = description, Incompatible = incompatible\<rparr>)\<rparr>"

definition Options_Set :: "string \<Rightarrow> 'a Options_scheme \<Rightarrow> string + 'a Options_scheme" where
  "Options_Set name0 os =
     (let name = ToUpper name0 in
      case options os name of
        None \<Rightarrow> Inl (''unknown option: '' @ name)
      | Some opt \<Rightarrow>
          (case find (\<lambda>activeOpt. \<exists>incompatible \<in> set (Incompatible opt).
                         ToUpper incompatible = activeOpt) (active os) of
             Some activeOpt \<Rightarrow>
               Inl (''option '' @ name @ '' is incompatible with '' @ activeOpt)
           | None \<Rightarrow>
               Inr (os\<lparr>active := (if name \<in> set (active os) then active os
                                   else active os @ [name])\<rparr>)))"

definition IsSet :: "string \<Rightarrow> 'a Options_scheme \<Rightarrow> bool" where
  "IsSet name os = (ToUpper name \<in> set (active os))"

type_synonym Time = int
type_synonym Duration = int

text \<open>
  A \<open>time.Time\<close> is the number of nanoseconds since the Unix epoch and a
  \<open>time.Duration\<close> a number of nanoseconds, both unbounded here.
\<close>

definition Second :: Duration where
  "Second = 1000000000"

definition Millisecond :: Duration where
  "Millisecond = 1000000"

record SetOptions = Options +
  ExpiryTime :: Time
  ExpiryType :: string

definition NewSetOptions :: SetOptions where
  "NewSetOptions =
     RegisterOption ''GET'' ''Return the old string stored at key, or nil if key did not exist'' []
       (RegisterOption ''XX'' ''Only set the key if it already exists'' [''NX'']
         (RegisterOption ''NX'' ''Only set the key if it does not already exist'' [''XX'']
           \<lparr>options = Map.empty, active = [], ExpiryTime = 0, ExpiryType = []\<rparr>))"

definition IsKEEPTTL :: "SetOptions \<Rightarrow> bool" where
  "IsKEEPTTL os = (ExpiryType os = ''KEEPTTL'')"

definition SetExpiry :: "Time \<Rightarrow> string \<Rightarrow> int \<Rightarrow> SetOptions \<Rightarrow> string + SetOptions" where
  "SetExpiry now expiryType v os =
     (if expiryType = ''EX''
        then Inr (os\<lparr>ExpiryTime := now + v * Second, ExpiryType := ''EX''\<rparr>)
      else if expiryType = ''PX''
        then Inr (os\<lparr>ExpiryTime := now + v * Millisecond, ExpiryType := ''PX''\<rparr>)
      else if expiryType = ''EXAT''
        then Inr (os\<lparr>ExpiryTime := v * Second, ExpiryType := ''EXAT''\<rparr>)
      else if expiryType = ''PXAT''
        then Inr (os\<lparr>ExpiryTime := v * Millisecond, ExpiryType := ''PXAT''\<rparr>)
      else if expiryType = ''KEEPTTL''
        then Inr (os\<lparr>ExpiryType := ''KEEPTTL''\<rparr>)
      else Inl (''invalid expiry type: '' @ expiryType))"

type_synonym ExpireOptions = Options

definition NewExpireOptions :: ExpireOptions where
  "NewExpireOptions =
     RegisterOption ''LT'' ''Set expiry only if the new expiry is less than current one''
         [''NX'', ''XX'', ''GT'']
       (RegisterOption ''GT'' ''Set expiry only if the new expiry is greater than current one''
           [''NX'', ''XX'', ''LT'']
         (RegisterOption ''XX'' ''Set expiry only if the key has an existing expiry''
             [''NX'', ''GT'', ''LT'']
           (RegisterOption ''NX'' ''Set expiry only if the key has no expiry''
               [''XX'', ''GT'', ''LT''] NewOptions)))"

type_synonym ZAddOptions = Options

definition NewZAddOptions :: ZAddOptions where
  "NewZAddOptions =
     RegisterOption ''INCR'' ''Increment the score of an element instead of setting it''
         [''NX'', ''XX'', ''GT'', ''LT'']
       (RegisterOption ''CH''
           ''Modify the return value to return the number of changed elements instead of new elements''
           []
         (RegisterOption ''LT''
             ''Only update existing elements if the new score is less than the current score''
             [''GT'']
           (RegisterOption ''GT''
               ''Only update existing elements if the new score is greater than the current score''
               [''LT'']
             (RegisterOption ''XX''
                 ''Only update elements that already exist, don't add new elements'' [''NX'']
               (RegisterOption ''NX''
                   ''Only add new elements, don't update already existing elements'' [''XX'']
                   NewOptions)))))"

record ZRangeOptions = Options +
  RangeType :: string
  Rev :: bool
  Limit_Offset :: int
  Limit_Count :: int
  WithScores :: bool

definition NewZRangeOptions :: ZRangeOptions where
  "NewZRangeOptions =
     RegisterOption ''WITHSCORES'' ''Return scores along with members'' []
       (RegisterOption ''REV'' ''Reverse the order of returned elements'' []
         (RegisterOption ''BYLEX'' ''Return elements with lexicographical ordering'' [''BYSCORE'']
           (RegisterOption ''BYSCORE'' ''Return elements with scores between min and max''
               [''BYLEX'']
             \<lparr>options = Map.empty, active = [], RangeType = [], Rev = False,
              Limit_Offset = 0, Limit_Count = 0, WithScores = False\<rparr>)))"

definition SetRangeType :: "string \<Rightarrow> ZRangeOptions \<Rightarrow> string + ZRangeOptions" where
  "SetRangeType rangeType os =
     (if rangeType = ''BYSCORE'' \<or> rangeType = ''BYLEX'' then Inr (os\<lparr>RangeType := rangeType\<rparr>)
      else Inl (''invalid range type: '' @ rangeType))"

definition SetLimit :: "int \<Rightarrow> int \<Rightarrow> ZRangeOptions \<Rightarrow> string + ZRangeOptions" where
  "SetLimit offset count os =
     (if offset < 0 then Inl ''offset must be non-negative''
      else if count < 0 then Inl ''count must be non-negative''
      else Inr (os\<lparr>Limit_Offset := offset, Limit_Count := count\<rparr>))"

definition IsByScore :: "ZRangeOptions \<Rightarrow> bool" where "IsByScore os = (RangeType os = ''BYSCORE'')"
definition IsByLex :: "ZRangeOptions \<Rightarrow> bool" where "IsByLex os = (RangeType os = ''BYLEX'')"

text \<open>The option tests; a nil options pointer is \<open>None\<close>, and the store tests it first.\<close>

definition IsNX :: "'a Options_scheme \<Rightarrow> bool" where "IsNX os = IsSet ''NX'' os"
definition IsXX :: "'a Options_scheme \<Rightarrow> bool" where "IsXX os = IsSet ''XX'' os"
definition IsGT :: "'a Options_scheme \<Rightarrow> bool" where "IsGT os = IsSet ''GT'' os"
definition IsLT :: "'a Options_scheme \<Rightarrow> bool" where "IsLT os = IsSet ''LT'' os"
definition IsCH :: "'a Options_scheme \<Rightarrow> bool" where "IsCH os = IsSet ''CH'' os"
definition IsINCR :: "'a Options_scheme \<Rightarrow> bool" where "IsINCR os = IsSet ''INCR'' os"
definition IsGET :: "'a Options_scheme \<Rightarrow> bool" where "IsGET os = IsSet ''GET'' os"

section \<open>The sorted set and the store\<close>

record SortedSet =
  dict :: "string \<rightharpoonup> real"
  sl :: skiplist
  scores :: "real list"
  members :: "string list"

text \<open>
  Go's \<open>interface{}\<close>, with the dynamic types the server puts in one. A \<open>*SortedSet\<close> is
  held by the one key it was created for, so the model stores the set itself. \<open>VKeys\<close> is
  the \<open>[]string\<close> that \<open>Keys\<close> returns, whose order is not specified.
\<close>

datatype val =
    VNil
  | VStr string
  | VInt int
  | VFloat real
  | VSimple string
  | VList "val list"
  | VKeys "string set"
  | VZSet SortedSet

record ScoreMember =
  Score :: real
  Member :: string

definition Add :: "SortedSet \<Rightarrow> rand \<Rightarrow> string \<Rightarrow> real \<Rightarrow> (SortedSet \<times> rand) option" where
  "Add s rnd m sc =
     do { (_, sl', rnd') \<leftarrow> insert (sl s) rnd sc m;
          Some (s\<lparr>dict := (dict s)(m \<mapsto> sc), sl := sl',
                  scores := scores s @ [sc], members := members s @ [m]\<rparr>, rnd') }"

text \<open>
  \<open>RangeByScore\<close>; \<open>emit_while\<close> is its loop that collects the result along the
  level-0 pointers, again with the test as a parameter.
\<close>

fun emit_while :: "nat \<Rightarrow> skiplist \<Rightarrow> (real \<Rightarrow> bool) \<Rightarrow> bool \<Rightarrow> nat option
    \<Rightarrow> val list option" where
  "emit_while fuel l t withScores None = Some []"
| "emit_while 0 l t withScores (Some a) = None"
| "emit_while (Suc fuel) l t withScores (Some a) =
     do { n \<leftarrow> node_at l a;
          if t (score n)
          then do { f \<leftarrow> idx (forward n) 0;
                    rest \<leftarrow> emit_while fuel l t withScores f;
                    Some ((if withScores then [VStr (member_n n), VFloat (score n)]
                           else [VStr (member_n n)]) @ rest) }
          else Some [] }"

definition RangeByScore :: "SortedSet \<Rightarrow> real \<Rightarrow> real \<Rightarrow> bool \<Rightarrow> bool \<Rightarrow> val list option" where
  "RangeByScore s mn mx rv withScores =
     (if dom (dict s) = {} then Some []
      else if rv
      then do { cur \<leftarrow> descend (level (sl s)) (sl s) (\<lambda>x. x > mx) (head (sl s));
                c \<leftarrow> node_at (sl s) cur;
                f \<leftarrow> idx (forward c) 0;
                emit_while (length (nodes (sl s))) (sl s) (\<lambda>x. x \<ge> mn) withScores f }
      else do { cur \<leftarrow> descend (level (sl s)) (sl s) (\<lambda>x. x < mn) (head (sl s));
                c \<leftarrow> node_at (sl s) cur;
                f \<leftarrow> idx (forward c) 0;
                emit_while (length (nodes (sl s))) (sl s) (\<lambda>x. x \<le> mx) withScores f })"

record MemoryStore =
  data :: "string \<rightharpoonup> val"
  expires :: "string \<rightharpoonup> Time"

definition NewMemoryStore :: MemoryStore where
  "NewMemoryStore = \<lparr>data = Map.empty, expires = Map.empty\<rparr>"

text \<open>
  Every operation of the store takes the reading of the clock it makes, \<open>now\<close>, and
  returns its result with the store it leaves. An operation that reads the clock more
  than once (\<open>Expire\<close>) gets one reading for all of them. Go's \<open>(value, error)\<close> pair is a
  sum: \<open>Inl\<close> the error's message, \<open>Inr\<close> the value.
\<close>

definition isExpired :: "Time \<Rightarrow> MemoryStore \<Rightarrow> string \<Rightarrow> bool" where
  "isExpired now s key = (case expires s key of Some expiry \<Rightarrow> now > expiry | None \<Rightarrow> False)"

definition Get :: "Time \<Rightarrow> MemoryStore \<Rightarrow> string \<Rightarrow> (string + val) \<times> MemoryStore" where
  "Get now s key =
     (if isExpired now s key
      then (Inr VNil, s\<lparr>data := (data s)(key := None), expires := (expires s)(key := None)\<rparr>)
      else (case data s key of
              Some v \<Rightarrow>
                (case v of
                   VStr x \<Rightarrow> (Inr (VStr x), s)
                 | VZSet z \<Rightarrow>
                     (Inl ''WRONGTYPE Operation against a key holding a sorted set'', s)
                 | _ \<Rightarrow>
                     (Inl ''WRONGTYPE Operation against a key holding the wrong kind of value'', s))
            | None \<Rightarrow> (Inr VNil, s)))"

definition Set :: "MemoryStore \<Rightarrow> string \<Rightarrow> val \<Rightarrow> SetOptions option
    \<Rightarrow> (string + val) \<times> MemoryStore" where
  "Set s key v opts =
     (let exists = (data s key \<noteq> None);
          oldValue = (case data s key of Some old \<Rightarrow> old | None \<Rightarrow> VNil)
      in if opts \<noteq> None \<and> IsNX (the opts) \<and> exists then (Inl ''key already exists'', s)
         else if opts \<noteq> None \<and> IsXX (the opts) \<and> \<not> exists then (Inl ''key does not exist'', s)
         else
           let s1 = s\<lparr>data := (data s)(key \<mapsto> v)\<rparr>;
               s2 = (case opts of
                       Some os \<Rightarrow>
                         (if IsKEEPTTL os
                          then (if expires s1 key = None
                                then s1\<lparr>expires := (expires s1)(key := None)\<rparr> else s1)
                          else if ExpiryType os \<noteq> []
                          then s1\<lparr>expires := (expires s1)(key \<mapsto> ExpiryTime os)\<rparr>
                          else s1\<lparr>expires := (expires s1)(key := None)\<rparr>)
                     | None \<Rightarrow> s1\<lparr>expires := (expires s1)(key := None)\<rparr>)
           in if opts \<noteq> None \<and> IsGET (the opts) then (Inr oldValue, s2) else (Inr VNil, s2))"

definition Del :: "MemoryStore \<Rightarrow> string \<Rightarrow> MemoryStore" where
  "Del s key = s\<lparr>data := (data s)(key := None), expires := (expires s)(key := None)\<rparr>"

definition Expire :: "Time \<Rightarrow> MemoryStore \<Rightarrow> string \<Rightarrow> Duration \<Rightarrow> ExpireOptions option
    \<Rightarrow> string option \<times> MemoryStore" where
  "Expire now s key ttl opts =
     (if data s key = None then (Some ''key does not exist'', s)
      else
        let hasExpiry = (case expires s key of Some expiry \<Rightarrow> \<not> now > expiry | None \<Rightarrow> False);
            currentTTL = (case expires s key of Some expiry \<Rightarrow> expiry - now | None \<Rightarrow> 0 - now)
        in if opts \<noteq> None \<and> IsNX (the opts) \<and> hasExpiry
             then (Some ''key already has an expiry'', s)
           else if opts \<noteq> None \<and> IsXX (the opts) \<and> \<not> hasExpiry
             then (Some ''key has no expiry'', s)
           else if opts \<noteq> None \<and> IsGT (the opts) \<and> hasExpiry \<and> ttl \<le> currentTTL
             then (Some ''new expiry is not greater than current one'', s)
           else if opts \<noteq> None \<and> IsLT (the opts) \<and> hasExpiry \<and> ttl \<ge> currentTTL
             then (Some ''new expiry is not less than current one'', s)
           else if ttl \<le> 0
             then (None, s\<lparr>expires := (expires s)(key := None), data := (data s)(key := None)\<rparr>)
           else (None, s\<lparr>expires := (expires s)(key \<mapsto> now + ttl)\<rparr>))"

text \<open>
  \<open>TTL\<close>: \<open>int(remaining.Seconds())\<close> is the whole number of seconds in a positive
  \<open>remaining\<close>.
\<close>

definition TTL :: "Time \<Rightarrow> MemoryStore \<Rightarrow> string \<Rightarrow> int \<times> MemoryStore" where
  "TTL now s key =
     (if data s key = None then (- 2, s)
      else (case expires s key of
              Some expiry \<Rightarrow>
                (let remaining = expiry - now
                 in if remaining \<le> 0
                    then (- 2, s\<lparr>data := (data s)(key := None),
                                 expires := (expires s)(key := None)\<rparr>)
                    else (remaining div Second, s))
            | None \<Rightarrow> (- 1, s)))"


text \<open>
  \<open>Keys\<close>. The order of the result is the iteration order of a Go map, which is not
  specified: the model returns the set of the keys. \<open>matchPattern\<close> answers for the
  pattern \<open>*\<close> itself and otherwise translates the pattern and calls the \<open>regexp\<close>
  library; that second part is the parameter \<open>rx\<close>.
\<close>

definition matchPattern :: "(string \<Rightarrow> string \<Rightarrow> bool) \<Rightarrow> string \<Rightarrow> string \<Rightarrow> bool" where
  "matchPattern rx str pattern = (if pattern = ''*'' then True else rx str pattern)"

definition Keys :: "(string \<Rightarrow> string \<Rightarrow> bool) \<Rightarrow> Time \<Rightarrow> MemoryStore \<Rightarrow> string \<Rightarrow> string set" where
  "Keys rx now s pattern =
     {k \<in> dom (data s). \<not> isExpired now s k \<and> matchPattern rx k pattern}"

text \<open>
  \<open>ZAdd\<close>. \<open>zadd_loop\<close> is the loop over the pairs. The set is reached through a pointer
  that \<open>ZAdd\<close> stores under the key before it looks at the options, so the store the
  model returns holds the set as the call left it, on every path.
\<close>

definition zadd_skip :: "ZAddOptions option \<Rightarrow> SortedSet \<Rightarrow> ScoreMember \<Rightarrow> bool" where
  \<comment> \<open>the four tests that end in \<open>continue\<close>, in the order of the source\<close>
  "zadd_skip opts st member =
     (let exists = (dict st (Member member) \<noteq> None);
          oldScore = (case dict st (Member member) of Some x \<Rightarrow> x | None \<Rightarrow> 0)
      in if opts \<noteq> None \<and> IsNX (the opts) \<and> exists then True
         else if opts \<noteq> None \<and> IsXX (the opts) \<and> \<not> exists then True
         else if opts \<noteq> None \<and> IsGT (the opts) \<and> exists \<and> Score member \<le> oldScore then True
         else if opts \<noteq> None \<and> IsLT (the opts) \<and> exists \<and> Score member \<ge> oldScore then True
         else False)"

definition zadd_added :: "SortedSet \<Rightarrow> ScoreMember \<Rightarrow> int" where
  \<comment> \<open>\<open>if !exists { added++ }\<close>\<close>
  "zadd_added st member = (if dict st (Member member) = None then 1 else 0)"

definition zadd_changed :: "SortedSet \<Rightarrow> ScoreMember \<Rightarrow> int" where
  \<comment> \<open>\<open>if !exists || oldScore != member.Score { changed++ }\<close>\<close>
  "zadd_changed st member =
     (case dict st (Member member) of
        None \<Rightarrow> 1
      | Some oldScore \<Rightarrow> if oldScore \<noteq> Score member then 1 else 0)"

fun zadd_loop :: "ZAddOptions option \<Rightarrow> ScoreMember list \<Rightarrow> SortedSet \<Rightarrow> rand \<Rightarrow> int \<Rightarrow> int
    \<Rightarrow> (SortedSet \<times> rand \<times> int \<times> int) option" where
  "zadd_loop opts [] st rnd changed added = Some (st, rnd, changed, added)"
| "zadd_loop opts (member # rest) st rnd changed added =
     (if zadd_skip opts st member then zadd_loop opts rest st rnd changed added
      else case Add st rnd (Member member) (Score member) of
             None \<Rightarrow> None
           | Some (st', rnd') \<Rightarrow>
               zadd_loop opts rest st' rnd'
                 (changed + zadd_changed st member) (added + zadd_added st member))"

definition empty_set :: SortedSet where
  "empty_set = \<lparr>dict = Map.empty, sl = newSkiplist, scores = [], members = []\<rparr>"

definition ZAdd :: "MemoryStore \<Rightarrow> rand \<Rightarrow> string \<Rightarrow> ScoreMember list \<Rightarrow> ZAddOptions option
    \<Rightarrow> ((string + val) \<times> MemoryStore \<times> rand) option" where
  "ZAdd s rnd key mems opts =
     (case (case data s key of
              Some (VZSet ss) \<Rightarrow> Some ss
            | Some _ \<Rightarrow> None
            | None \<Rightarrow> Some empty_set) of
        None \<Rightarrow>
          Some (Inl ''WRONGTYPE Operation against a key holding the wrong kind of value'', s, rnd)
      | Some st \<Rightarrow>
          (if opts \<noteq> None \<and> IsINCR (the opts)
           then (if length mems \<noteq> 1
                 then Some (Inl ''INCR option requires exactly one score-member pair'',
                            s\<lparr>data := (data s)(key \<mapsto> VZSet st)\<rparr>, rnd)
                 else
                   let member = hd mems;
                       exists = (dict st (Member member) \<noteq> None);
                       oldScore = (case dict st (Member member) of Some x \<Rightarrow> x | None \<Rightarrow> 0)
                   in if IsNX (the opts) \<and> exists
                        then Some (Inr VNil, s\<lparr>data := (data s)(key \<mapsto> VZSet st)\<rparr>, rnd)
                      else if IsXX (the opts) \<and> \<not> exists
                        then Some (Inr VNil, s\<lparr>data := (data s)(key \<mapsto> VZSet st)\<rparr>, rnd)
                      else do { (st', rnd') \<leftarrow> Add st rnd (Member member) (oldScore + Score member);
                                Some (Inr (VFloat (oldScore + Score member)),
                                      s\<lparr>data := (data s)(key \<mapsto> VZSet st')\<rparr>, rnd') })
           else do { (st', rnd', changed, added) \<leftarrow> zadd_loop opts mems st rnd 0 0;
                     Some (Inr (VInt (if opts \<noteq> None \<and> IsCH (the opts) then changed else added)),
                           s\<lparr>data := (data s)(key \<mapsto> VZSet st')\<rparr>, rnd') }))"

text \<open>\<open>Range\<close>, \<open>RangeByLex\<close> and \<open>ZRange\<close>.\<close>

definition Range :: "SortedSet \<Rightarrow> int \<Rightarrow> int \<Rightarrow> bool \<Rightarrow> val list option" where
  "Range s start stop withScores =
     (if dom (dict s) = {} then Some []
      else do { ns \<leftarrow> getRange (sl s) start stop;
                Some (concat (map (\<lambda>n. if withScores then [VStr (member_n n), VFloat (score n)]
                                         else [VStr (member_n n)]) ns)) })"

definition RangeByLex :: "SortedSet \<Rightarrow> string \<Rightarrow> string \<Rightarrow> bool \<Rightarrow> val list" where
  "RangeByLex s mn mx rv =
     (let ms = filter (\<lambda>m. m \<ge> mn \<and> m \<le> mx) (members s)
      in map VStr (if rv then rev ms else ms))"

definition apply_limit :: "ZRangeOptions option \<Rightarrow> bool \<Rightarrow> val list \<Rightarrow> val list" where
  "apply_limit opts withScores result =
     (if opts \<noteq> None \<and> Limit_Count (the opts) > 0
      then (let multiplier = (if withScores then 2 else 1);
                adjustedOffset = Limit_Offset (the opts) * multiplier;
                adjustedCount = Limit_Count (the opts) * multiplier
            in if adjustedOffset \<ge> int (length result) then []
               else (let e = (if adjustedOffset + adjustedCount > int (length result)
                              then int (length result) else adjustedOffset + adjustedCount)
                     in take (nat (e - adjustedOffset)) (drop (nat adjustedOffset) result)))
      else result)"

definition ZRange :: "MemoryStore \<Rightarrow> string \<Rightarrow> val \<Rightarrow> val \<Rightarrow> ZRangeOptions option
    \<Rightarrow> (string + val list) option" where
  "ZRange s key start stop opts =
     (case data s key of
        None \<Rightarrow> Some (Inr [])
      | Some (VZSet zset) \<Rightarrow>
          (let withScores = (opts \<noteq> None \<and> WithScores (the opts))
           in if opts \<noteq> None \<and> IsByScore (the opts)
              then (case start of
                      VFloat minScore \<Rightarrow>
                        (case stop of
                           VFloat maxScore \<Rightarrow>
                             do { result \<leftarrow> RangeByScore zset minScore maxScore
                                             (Rev (the opts)) withScores;
                                  Some (Inr (apply_limit opts withScores result)) }
                         | _ \<Rightarrow> Some (Inl ''invalid score range stop''))
                    | _ \<Rightarrow> Some (Inl ''invalid score range start''))
              else if opts \<noteq> None \<and> IsByLex (the opts)
              then (case start of
                      VStr minLex \<Rightarrow>
                        (case stop of
                           VStr maxLex \<Rightarrow>
                             Some (Inr (apply_limit opts withScores
                                          (RangeByLex zset minLex maxLex (Rev (the opts)))))
                         | _ \<Rightarrow> Some (Inl ''invalid lex range stop''))
                    | _ \<Rightarrow> Some (Inl ''invalid lex range start''))
              else (case start of
                      VInt startIdx0 \<Rightarrow>
                        (case stop of
                           VInt stopIdx0 \<Rightarrow>
                             (let setLen = int (card (dom (dict zset)));
                                  startIdx1 = (if startIdx0 < 0 then setLen + startIdx0 else startIdx0);
                                  stopIdx1 = (if stopIdx0 < 0 then setLen + stopIdx0 else stopIdx0);
                                  startIdx = (if startIdx1 < 0 then 0 else startIdx1);
                                  stopIdx = (if stopIdx1 \<ge> setLen then setLen - 1 else stopIdx1)
                              in if startIdx > stopIdx \<or> startIdx \<ge> setLen then Some (Inr [])
                                 else do { result \<leftarrow> Range zset startIdx stopIdx withScores;
                                           Some (Inr (apply_limit opts withScores result)) })
                         | _ \<Rightarrow> Some (Inl ''invalid index range stop''))
                    | _ \<Rightarrow> Some (Inl ''invalid index range start'')))
      | Some _ \<Rightarrow>
          Some (Inl ''WRONGTYPE Operation against a key holding the wrong kind of value''))"

section \<open>Commands: internal/commands\<close>

text \<open>
  \<open>DelCommand.Execute\<close>. The loop asks \<open>Get\<close> for each key and drops \<open>Get\<close>'s error, so
  \<open>val\<close> is nil when \<open>Get\<close> fails. One reading of the clock serves the whole command.
\<close>

fun del_loop :: "Time \<Rightarrow> string list \<Rightarrow> MemoryStore \<Rightarrow> int \<Rightarrow> int \<times> MemoryStore" where
  "del_loop now [] s deleted = (deleted, s)"
| "del_loop now (key # keys) s deleted =
     (case Get now s key of
        (Inr v, s1) \<Rightarrow>
          (if v \<noteq> VNil then del_loop now keys (Del s1 key) (deleted + 1)
           else del_loop now keys s1 deleted)
      | (Inl e, s1) \<Rightarrow> del_loop now keys s1 deleted)"

definition DelCommand_Execute :: "Time \<Rightarrow> string list \<Rightarrow> MemoryStore
    \<Rightarrow> (string + val) \<times> MemoryStore" where
  "DelCommand_Execute now keys s =
     (case del_loop now keys s 0 of (deleted, s') \<Rightarrow> (Inr (VInt deleted), s'))"

text \<open>
  The commands the parser builds. \<open>Execute\<close> gives each its method: those of \<open>PING\<close>,
  \<open>ECHO\<close>, \<open>SET\<close>, \<open>DEL\<close> and \<open>ZADD\<close> are in the source.
  Modelled from the spec: the \<open>Execute\<close> methods of \<open>GetCommand\<close>, \<open>ExpireCommand\<close>,
  \<open>TtlCommand\<close>, \<open>KeysCommand\<close>, \<open>ZRangeCommand\<close> and \<open>CommandCommand\<close>, whose source
  files are missing: each hands its fields to the store operation of its name and
  returns what the store returns (\<open>EXPIRE\<close> returns nil on success, \<open>COMMAND\<close> an empty
  array), as the command table of the spec and the tests of the package have it.
\<close>

datatype Command =
    PingCommand
  | EchoCommand string
  | SetCommand string string SetOptions
  | GetCommand string
  | DelCommand "string list"
  | ExpireCommand string Duration ExpireOptions
  | TtlCommand string
  | KeysCommand string
  | ZAddCommand string "ScoreMember list" ZAddOptions
  | ZRangeCommand string val val ZRangeOptions
  | CommandCommand

definition Execute :: "(string \<Rightarrow> string \<Rightarrow> bool) \<Rightarrow> Time \<Rightarrow> Command \<Rightarrow> MemoryStore \<Rightarrow> rand
    \<Rightarrow> ((string + val) \<times> MemoryStore \<times> rand) option" where
  "Execute rx now command s rnd =
     (case command of
        PingCommand \<Rightarrow> Some (Inr (VSimple ''PONG''), s, rnd)
      | EchoCommand message \<Rightarrow> Some (Inr (VStr message), s, rnd)
      | SetCommand key v opts \<Rightarrow>
          (case Set s key (VStr v) (Some opts) of (r, s') \<Rightarrow> Some (r, s', rnd))
      | GetCommand key \<Rightarrow> (case Get now s key of (r, s') \<Rightarrow> Some (r, s', rnd))
      | DelCommand keys \<Rightarrow> (case DelCommand_Execute now keys s of (r, s') \<Rightarrow> Some (r, s', rnd))
      | ExpireCommand key ttl opts \<Rightarrow>
          (case Expire now s key ttl (Some opts) of
             (Some e, s') \<Rightarrow> Some (Inl e, s', rnd)
           | (None, s') \<Rightarrow> Some (Inr VNil, s', rnd))
      | TtlCommand key \<Rightarrow> (case TTL now s key of (t, s') \<Rightarrow> Some (Inr (VInt t), s', rnd))
      | KeysCommand pattern \<Rightarrow> Some (Inr (VKeys (Keys rx now s pattern)), s, rnd)
      | ZAddCommand key mems opts \<Rightarrow> ZAdd s rnd key mems (Some opts)
      | ZRangeCommand key start stop opts \<Rightarrow>
          (case ZRange s key start stop (Some opts) of
             None \<Rightarrow> None
           | Some (Inl e) \<Rightarrow> Some (Inl e, s, rnd)
           | Some (Inr result) \<Rightarrow> Some (Inr (VList result), s, rnd))
      | CommandCommand \<Rightarrow> Some (Inr (VList []), s, rnd))"

section \<open>The request parser: internal/resp/parser.go\<close>

text \<open>
  The reader: \<open>inp\<close> holds the bytes the client has still to deliver, and \<open>fin\<close> is the
  error the connection returns once they are consumed (\<open>EOF\<close> when the client has closed
  it, the text of the I/O error otherwise). A parsing function returns \<open>Inl\<close> the
  message of its error, or \<open>Inr\<close> its value with the bytes it has left unread.
\<close>

definition CR :: char where
  "CR = CHR 0x0D"

definition LF :: char where
  "LF = CHR 0x0A"

definition CRLF :: string where
  "CRLF = [CR, LF]"

definition ErrInvalidSyntax :: string where
  "ErrInvalidSyntax = ''invalid RESP syntax''"

definition bindE :: "'e + 'a \<Rightarrow> ('a \<Rightarrow> 'e + 'b) \<Rightarrow> 'e + 'b" where
  "bindE r f = (case r of Inl e \<Rightarrow> Inl e | Inr x \<Rightarrow> f x)"

definition ReadByte :: "string \<Rightarrow> string \<Rightarrow> string + char \<times> string" where
  "ReadByte fin inp = (case inp of [] \<Rightarrow> Inl fin | c # cs \<Rightarrow> Inr (c, cs))"

definition ReadString :: "string \<Rightarrow> string \<Rightarrow> string + string \<times> string" where
  \<comment> \<open>\<open>ReadString('\n')\<close>: up to and including the first line feed\<close>
  "ReadString fin inp =
     (if LF \<in> set inp
      then Inr (takeWhile (\<lambda>c. c \<noteq> LF) inp @ [LF], tl (dropWhile (\<lambda>c. c \<noteq> LF) inp))
      else Inl fin)"

definition ReadFull :: "string \<Rightarrow> nat \<Rightarrow> string \<Rightarrow> string + string \<times> string" where
  \<comment> \<open>\<open>io.ReadFull\<close> into a buffer of \<open>n\<close> bytes\<close>
  "ReadFull fin n inp =
     (if n \<le> length inp then Inr (take n inp, drop n inp)
      else if inp = [] then Inl fin
      else if fin = ''EOF'' then Inl ''unexpected EOF''
      else Inl fin)"

text \<open>
  \<open>strconv.Atoi\<close>, of the standard library: an optional sign, then one or more decimal
  digits, with a value that fits 64 bits.
\<close>

definition digit :: "char \<Rightarrow> int option" where
  "digit c = (if CHR ''0'' \<le> c \<and> c \<le> CHR ''9'' then Some (int (of_char c) - 48) else None)"

fun digits :: "string \<Rightarrow> int \<Rightarrow> int option" where
  "digits [] acc = Some acc"
| "digits (c # cs) acc = (case digit c of None \<Rightarrow> None | Some d \<Rightarrow> digits cs (10 * acc + d))"

definition Atoi :: "string \<Rightarrow> int option" where
  "Atoi s =
     (let neg = (s \<noteq> [] \<and> hd s = CHR ''-'');
          ds = (if s \<noteq> [] \<and> (hd s = CHR ''-'' \<or> hd s = CHR ''+'') then tl s else s)
      in if ds = [] then None
         else (case digits ds 0 of
                 None \<Rightarrow> None
               | Some n \<Rightarrow>
                   (let v = (if neg then - n else n)
                    in if - (2 ^ 63) \<le> v \<and> v < 2 ^ 63 then Some v else None)))"

definition readLine :: "string \<Rightarrow> string \<Rightarrow> string + string \<times> string" where
  "readLine fin inp =
     bindE (ReadString fin inp) (\<lambda>(line, rest).
       if length line < 2 \<or> line ! (length line - 2) \<noteq> CR then Inl ErrInvalidSyntax
       else Inr (take (length line - 2) line, rest))"

definition readInteger :: "string \<Rightarrow> string \<Rightarrow> string + int \<times> string" where
  "readInteger fin inp =
     bindE (readLine fin inp) (\<lambda>(line, rest).
       case Atoi line of None \<Rightarrow> Inl ErrInvalidSyntax | Some n \<Rightarrow> Inr (n, rest))"

definition readCRLF :: "string \<Rightarrow> string \<Rightarrow> string + unit \<times> string" where
  "readCRLF fin inp =
     bindE (ReadByte fin inp) (\<lambda>(cr, rest).
       if cr \<noteq> CR then Inl ErrInvalidSyntax
       else bindE (ReadByte fin rest) (\<lambda>(lf, rest').
         if lf \<noteq> LF then Inl ErrInvalidSyntax else Inr ((), rest')))"

definition readBulkString :: "string \<Rightarrow> string \<Rightarrow> string + string \<times> string" where
  "readBulkString fin inp =
     bindE (ReadByte fin inp) (\<lambda>(b, rest).
       if b \<noteq> CHR ''$'' then Inl ErrInvalidSyntax
       else bindE (readInteger fin rest) (\<lambda>(len, rest1).
         if len < 0 then Inr ([], rest1)
         else bindE (ReadFull fin (nat len) rest1) (\<lambda>(bytes, rest2).
           bindE (readCRLF fin rest2) (\<lambda>(_, rest3). Inr (bytes, rest3)))))"

fun readElements :: "string \<Rightarrow> nat \<Rightarrow> string \<Rightarrow> string + string list \<times> string" where
  \<comment> \<open>the loop of \<open>parseArray\<close> that fills \<open>elements\<close>\<close>
  "readElements fin 0 inp = Inr ([], inp)"
| "readElements fin (Suc n) inp =
     bindE (readBulkString fin inp) (\<lambda>(element, rest).
       bindE (readElements fin n rest) (\<lambda>(elements, rest'). Inr (element # elements, rest')))"

definition readArray :: "string \<Rightarrow> string \<Rightarrow> string + string list \<times> string" where
  \<comment> \<open>\<open>parseArray\<close> up to its call of \<open>createCommand\<close>\<close>
  "readArray fin inp =
     bindE (readInteger fin inp) (\<lambda>(len, rest).
       if len < 1 then Inl ''array length must be positive''
       else readElements fin (nat len) rest)"

definition readRequest :: "string \<Rightarrow> string \<Rightarrow> string + string list \<times> string" where
  \<comment> \<open>\<open>Parse\<close> up to the call of \<open>createCommand\<close>: the framing of a request\<close>
  "readRequest fin inp =
     bindE (ReadByte fin inp) (\<lambda>(firstByte, rest).
       if firstByte = CHR ''*'' then readArray fin rest
       else if firstByte = CHR ''$'' then Inl ''bulk string must be part of an array''
       else if firstByte = CHR ''+'' then Inl ''simple string must be part of an array''
       else if firstByte = CHR '':'' then Inl ''integer must be part of an array''
       else if firstByte = CHR ''-'' then Inl ''error must be part of an array''
       else Inl ErrInvalidSyntax)"

text \<open>
  \<open>createCommand\<close>. Each option loop of the source runs an index \<open>i\<close> over \<open>args\<close>; the
  model runs over the arguments from position \<open>i\<close> on. \<open>strconv.ParseFloat\<close> is the
  parameter \<open>pf\<close>, and \<open>now\<close> is the reading of the clock \<open>SetExpiry\<close> makes. The result
  is \<open>None\<close> where the Go code panics (an index out of range in the pair loop of
  \<open>ZADD\<close>).
\<close>

definition ParseInt_error :: "string \<Rightarrow> string" where
  \<comment> \<open>the text of the error of \<open>strconv.ParseInt\<close> (Go quotes the argument)\<close>
  "ParseInt_error a = ''strconv.ParseInt: parsing '' @ a @ '': invalid syntax''"

fun set_options :: "Time \<Rightarrow> string list \<Rightarrow> SetOptions \<Rightarrow> string + SetOptions" where
  "set_options now [] os = Inr os"
| "set_options now (a # rest) os =
     (if ToUpper a \<in> {''NX'', ''XX'', ''GET''}
      then (case Options_Set (ToUpper a) os of
              Inl e \<Rightarrow> Inl (''invalid option: '' @ e)
            | Inr os' \<Rightarrow> set_options now rest os')
      else if ToUpper a = ''KEEPTTL''
      then (case SetExpiry now (ToUpper a) 0 os of
              Inl e \<Rightarrow> Inl (''invalid option: '' @ e)
            | Inr os' \<Rightarrow> set_options now rest os')
      else if ToUpper a \<in> {''EX'', ''PX'', ''EXAT'', ''PXAT''}
      then (case rest of
              [] \<Rightarrow> Inl (''option '' @ ToUpper a @ '' requires a value'')
            | v # rest' \<Rightarrow>
                (case Atoi v of
                   None \<Rightarrow> Inl (''invalid value for option '' @ ToUpper a @ '': '' @ ParseInt_error v)
                 | Some n \<Rightarrow>
                     (case SetExpiry now (ToUpper a) n os of
                        Inl e \<Rightarrow> Inl (''invalid option: '' @ e)
                      | Inr os' \<Rightarrow> set_options now rest' os')))
      else Inl (''unknown option: '' @ ToUpper a))"

fun expire_options :: "string list \<Rightarrow> ExpireOptions \<Rightarrow> string + ExpireOptions" where
  "expire_options [] os = Inr os"
| "expire_options (a # rest) os =
     (case Options_Set (ToUpper a) os of
        Inl e \<Rightarrow> Inl (''invalid option: '' @ e)
      | Inr os' \<Rightarrow> expire_options rest os')"

fun zadd_options :: "string list \<Rightarrow> ZAddOptions \<Rightarrow> string + ZAddOptions \<times> string list" where
  \<comment> \<open>\<open>optionLoop\<close>: returns the options and the arguments from the index it stops at\<close>
  "zadd_options [] os = Inr (os, [])"
| "zadd_options (a # rest) os =
     (if ToUpper a \<in> {''NX'', ''XX'', ''GT'', ''LT'', ''CH'', ''INCR''}
      then (case Options_Set (ToUpper a) os of
              Inl e \<Rightarrow> Inl (''invalid option: '' @ e)
            | Inr os' \<Rightarrow> zadd_options rest os')
      else Inr (os, a # rest))"

fun zadd_pairs :: "(string \<Rightarrow> real option) \<Rightarrow> string list \<Rightarrow> (string + ScoreMember list) option" where
  "zadd_pairs pf [] = Some (Inr [])"
| "zadd_pairs pf [a] =
     (case pf a of
        None \<Rightarrow> Some (Inl (''invalid score value: '' @ a))
      | Some sc \<Rightarrow> None)"
| "zadd_pairs pf (a # b # rest) =
     (case pf a of
        None \<Rightarrow> Some (Inl (''invalid score value: '' @ a))
      | Some sc \<Rightarrow>
          (case zadd_pairs pf rest of
             None \<Rightarrow> None
           | Some (Inl e) \<Rightarrow> Some (Inl e)
           | Some (Inr ms) \<Rightarrow> Some (Inr (\<lparr>Score = sc, Member = b\<rparr> # ms))))"

fun zrange_options :: "string list \<Rightarrow> ZRangeOptions \<Rightarrow> string + ZRangeOptions" where
  "zrange_options [] os = Inr os"
| "zrange_options (a # rest) os =
     (if ToUpper a = ''BYSCORE'' \<or> ToUpper a = ''BYLEX''
      then (case SetRangeType (ToUpper a) os of
              Inl e \<Rightarrow> Inl (''invalid range type: '' @ e)
            | Inr os' \<Rightarrow> zrange_options rest os')
      else if ToUpper a = ''REV'' then zrange_options rest (os\<lparr>Rev := True\<rparr>)
      else if ToUpper a = ''WITHSCORES'' then zrange_options rest (os\<lparr>WithScores := True\<rparr>)
      else if ToUpper a = ''LIMIT''
      then (case rest of
              off # cnt # rest' \<Rightarrow>
                (case Atoi off of
                   None \<Rightarrow> Inl ''invalid LIMIT offset''
                 | Some offset \<Rightarrow>
                     (case Atoi cnt of
                        None \<Rightarrow> Inl ''invalid LIMIT count''
                      | Some count \<Rightarrow>
                          (case SetLimit offset count os of
                             Inl e \<Rightarrow> Inl (''invalid LIMIT parameters: '' @ e)
                           | Inr os' \<Rightarrow> zrange_options rest' os')))
            | _ \<Rightarrow> Inl ''LIMIT option requires offset and count'')
      else Inl (''unknown option: '' @ ToUpper a))"

definition zrange_bounds :: "(string \<Rightarrow> real option) \<Rightarrow> string list \<Rightarrow> ZRangeOptions
    \<Rightarrow> string + Command" where
  "zrange_bounds pf args os =
     (if IsByScore os
      then (case pf (args ! 2) of
              None \<Rightarrow> Inl (''invalid score range start: '' @ args ! 2)
            | Some start \<Rightarrow>
                (case pf (args ! 3) of
                   None \<Rightarrow> Inl (''invalid score range stop: '' @ args ! 3)
                 | Some stop \<Rightarrow> Inr (ZRangeCommand (args ! 1) (VFloat start) (VFloat stop) os)))
      else if IsByLex os
      then Inr (ZRangeCommand (args ! 1) (VStr (args ! 2)) (VStr (args ! 3)) os)
      else (case Atoi (args ! 2) of
              None \<Rightarrow> Inl ''invalid start index''
            | Some start \<Rightarrow>
                (case Atoi (args ! 3) of
                   None \<Rightarrow> Inl ''invalid stop index''
                 | Some stop \<Rightarrow> Inr (ZRangeCommand (args ! 1) (VInt start) (VInt stop) os))))"

definition createCommand :: "(string \<Rightarrow> real option) \<Rightarrow> Time \<Rightarrow> string list
    \<Rightarrow> (string + Command) option" where
  "createCommand pf now args =
     (if length args = 0 then Some (Inl ''empty command'')
      else let cmd = ToUpper (args ! 0) in
        if cmd = ''PING'' then Some (Inr PingCommand)
        else if cmd = ''ECHO''
          then (if length args \<noteq> 2 then Some (Inl ''ECHO command requires exactly 1 argument'')
                else Some (Inr (EchoCommand (args ! 1))))
        else if cmd = ''SET''
          then (if length args < 3 then Some (Inl ''SET command requires at least 2 arguments'')
                else (case set_options now (drop 3 args) NewSetOptions of
                        Inl e \<Rightarrow> Some (Inl e)
                      | Inr opts \<Rightarrow> Some (Inr (SetCommand (args ! 1) (args ! 2) opts))))
        else if cmd = ''GET''
          then (if length args \<noteq> 2 then Some (Inl ''GET command requires exactly 1 argument'')
                else Some (Inr (GetCommand (args ! 1))))
        else if cmd = ''DEL''
          then (if length args < 2 then Some (Inl ''DEL command requires at least 1 argument'')
                else Some (Inr (DelCommand (drop 1 args))))
        else if cmd = ''EXPIRE''
          then (if length args < 3 then Some (Inl ''EXPIRE command requires at least 2 arguments'')
                else (case Atoi (args ! 2) of
                        None \<Rightarrow> Some (Inl ''invalid TTL value'')
                      | Some ttl \<Rightarrow>
                          (case expire_options (drop 3 args) NewExpireOptions of
                             Inl e \<Rightarrow> Some (Inl e)
                           | Inr opts \<Rightarrow> Some (Inr (ExpireCommand (args ! 1) (ttl * Second) opts)))))
        else if cmd = ''TTL''
          then (if length args \<noteq> 2 then Some (Inl ''TTL command requires exactly 1 argument'')
                else Some (Inr (TtlCommand (args ! 1))))
        else if cmd = ''KEYS''
          then (if length args \<noteq> 2 then Some (Inl ''KEYS command requires exactly 1 argument'')
                else Some (Inr (KeysCommand (args ! 1))))
        else if cmd = ''ZADD''
          then (if length args < 4 \<or> (length args - 2) mod 2 \<noteq> 0
                then Some (Inl ''ZADD command requires at least one score-member pair'')
                else (case zadd_options (drop 1 args) NewZAddOptions of
                        Inl e \<Rightarrow> Some (Inl e)
                      | Inr (opts, rest) \<Rightarrow>
                          (case zadd_pairs pf (drop 1 rest) of
                             None \<Rightarrow> None
                           | Some (Inl e) \<Rightarrow> Some (Inl e)
                           | Some (Inr mems) \<Rightarrow> Some (Inr (ZAddCommand (args ! 1) mems opts)))))
        else if cmd = ''ZRANGE''
          then (if length args < 4 then Some (Inl ''ZRANGE command requires at least 3 arguments'')
                else (case zrange_options (drop 4 args) NewZRangeOptions of
                        Inl e \<Rightarrow> Some (Inl e)
                      | Inr opts \<Rightarrow> Some (zrange_bounds pf args opts)))
        else if cmd = ''COMMAND'' then Some (Inr CommandCommand)
        else Some (Inl (''unknown command: '' @ cmd)))"

definition Parse :: "(string \<Rightarrow> real option) \<Rightarrow> Time \<Rightarrow> string \<Rightarrow> string
    \<Rightarrow> (string + Command \<times> string) option" where
  "Parse pf now fin inp =
     (case readRequest fin inp of
        Inl e \<Rightarrow> Some (Inl e)
      | Inr (elements, rest) \<Rightarrow>
          (case createCommand pf now elements of
             None \<Rightarrow> None
           | Some (Inl e) \<Rightarrow> Some (Inl e)
           | Some (Inr command) \<Rightarrow> Some (Inr (command, rest))))"

section \<open>The connection handler: internal/server\<close>

text \<open>
  A connection: the bytes the client will send and how its side ends (see the reader
  above), the responses handed to the writer so far, and the number of writes that
  succeed before one fails with \<open>write_error\<close> (\<open>None\<close>: no write fails). The writer of
  the \<open>resp\<close> package is not in the source, so a response is kept as the value or the
  error it was made from and not as bytes.
\<close>

datatype reply = Response val | ErrorResponse string

record Conn =
  unread :: string
  closing :: string
  written :: "reply list"
  writes_left :: "nat option"
  write_error :: string

definition write_reply :: "reply \<Rightarrow> Conn \<Rightarrow> string + Conn" where
  \<comment> \<open>\<open>writeResponse\<close> and \<open>writeError\<close>: hand the reply to the writer and flush\<close>
  "write_reply r c =
     (case writes_left c of
        None \<Rightarrow> Inr (c\<lparr>written := written c @ [r]\<rparr>)
      | Some 0 \<Rightarrow> Inl (write_error c)
      | Some (Suc n) \<Rightarrow> Inr (c\<lparr>written := written c @ [r], writes_left := Some n\<rparr>))"

text \<open>
  \<open>Handle\<close>. The clock \<open>clk\<close> gives the reading for the request of each number, and \<open>n\<close>
  numbers the request the handler is about to read. Every turn of the loop that does
  not return consumes at least one byte of the input, so the loop makes at most as
  many turns as there are bytes, and one more to find the end: that is the fuel \<open>Handle\<close>
  gives the loop. The result is the error \<open>Handle\<close> returns (\<open>None\<close> for nil) with the
  connection, the store and the random source as it leaves them; \<open>None\<close> as the whole
  result is a run that does not return.
\<close>

fun Handle_loop :: "nat \<Rightarrow> (string \<Rightarrow> real option) \<Rightarrow> (string \<Rightarrow> string \<Rightarrow> bool) \<Rightarrow> (nat \<Rightarrow> Time)
    \<Rightarrow> nat \<Rightarrow> Conn \<Rightarrow> MemoryStore \<Rightarrow> rand
    \<Rightarrow> (string option \<times> Conn \<times> MemoryStore \<times> rand) option" where
  "Handle_loop 0 pf rx clk n c s rnd = None"
| "Handle_loop (Suc fuel) pf rx clk n c s rnd =
     (case Parse pf (clk n) (closing c) (unread c) of
        None \<Rightarrow> None
      | Some (Inl err) \<Rightarrow>
          (if err = ''EOF'' then Some (None, c, s, rnd)
           else Some (Some (''error parsing command: '' @ err), c, s, rnd))
      | Some (Inr (command, rest)) \<Rightarrow>
          (case Execute rx (clk n) command s rnd of
             None \<Rightarrow> None
           | Some (Inl err, s', rnd') \<Rightarrow>
               (case write_reply (ErrorResponse err) (c\<lparr>unread := rest\<rparr>) of
                  Inl e \<Rightarrow>
                    Some (Some (''error writing error response: '' @ e), c\<lparr>unread := rest\<rparr>, s', rnd')
                | Inr c' \<Rightarrow> Handle_loop fuel pf rx clk (Suc n) c' s' rnd')
           | Some (Inr response, s', rnd') \<Rightarrow>
               (case write_reply (Response response) (c\<lparr>unread := rest\<rparr>) of
                  Inl e \<Rightarrow>
                    Some (Some (''error writing response: '' @ e), c\<lparr>unread := rest\<rparr>, s', rnd')
                | Inr c' \<Rightarrow> Handle_loop fuel pf rx clk (Suc n) c' s' rnd')))"

definition Handle :: "(string \<Rightarrow> real option) \<Rightarrow> (string \<Rightarrow> string \<Rightarrow> bool) \<Rightarrow> (nat \<Rightarrow> Time)
    \<Rightarrow> nat \<Rightarrow> Conn \<Rightarrow> MemoryStore \<Rightarrow> rand
    \<Rightarrow> (string option \<times> Conn \<times> MemoryStore \<times> rand) option" where
  "Handle pf rx clk n c s rnd = Handle_loop (Suc (length (unread c))) pf rx clk n c s rnd"

section \<open>Observations used in the statements\<close>

definition zset_at :: "MemoryStore \<Rightarrow> string \<Rightarrow> SortedSet option" where
  "zset_at s key = (case data s key of Some (VZSet z) \<Rightarrow> Some z | _ \<Rightarrow> None)"

text \<open>A sequence of store operations, each with the reading of the clock it makes.\<close>

datatype store_op =
    OpSet string string "SetOptions option"
  | OpDel string
  | OpExpire Time string Duration "ExpireOptions option"

fun apply_op :: "MemoryStore \<Rightarrow> store_op \<Rightarrow> MemoryStore" where
  "apply_op s (OpSet key v opts) = snd (Set s key (VStr v) opts)"
| "apply_op s (OpDel key) = Del s key"
| "apply_op s (OpExpire now key ttl opts) = snd (Expire now s key ttl opts)"

definition apply_ops :: "store_op list \<Rightarrow> MemoryStore" where
  "apply_ops ops = foldl apply_op NewMemoryStore ops"

section \<open>Lazy expiry: TTL and GET agree\<close>

lemma TTL_minus2_iff:
  "fst (TTL now s k) = - 2 \<longleftrightarrow>
     data s k = None \<or> (\<exists>expiry. expires s k = Some expiry \<and> expiry \<le> now)"
proof (cases "data s k")
  case None
  then show ?thesis by (simp add: TTL_def)
next
  case (Some v)
  show ?thesis
  proof (cases "expires s k")
    case None
    with Some show ?thesis by (simp add: TTL_def)
  next
    case (Some expiry)
    have pos: "0 < expiry - now \<Longrightarrow> (expiry - now) div Second \<noteq> - 2"
    proof -
      assume "0 < expiry - now"
      then have "0 \<le> (expiry - now) div Second"
        by (simp add: Second_def pos_imp_zdiv_nonneg_iff)
      then show ?thesis by linarith
    qed
    from Some \<open>data s k = Some v\<close> pos show ?thesis
      by (auto simp: TTL_def Let_def)
  qed
qed

lemma Get_after_TTL:
  "fst (Get now (snd (TTL now s k)) k) = Inr VNil \<longleftrightarrow>
     data s k = None \<or> (\<exists>expiry. expires s k = Some expiry \<and> expiry \<le> now)"
  by (auto simp: TTL_def Get_def isExpired_def Let_def split: option.splits val.splits)

text \<open>
  C8. After any sequence of SET, DEL and EXPIRE operations, and for every key, \<open>TTL\<close>
  answers \<open>-2\<close> exactly when the \<open>GET\<close> that follows it at once (at the same reading of
  the clock, on the store \<open>TTL\<close> left) answers null; a key whose deadline is past is
  absent for both, since \<open>TTL\<close> answers \<open>-2\<close> and \<open>GET\<close> null whenever the deadline is
  before the clock.
\<close>

theorem ttl_get_coherence:
  "(fst (TTL now (apply_ops ops) k) = - 2 \<longleftrightarrow>
      fst (Get now (snd (TTL now (apply_ops ops) k)) k) = Inr VNil)
   \<and> (case expires (apply_ops ops) k of
        Some expiry \<Rightarrow>
          if expiry < now
          then fst (TTL now (apply_ops ops) k) = - 2
               \<and> fst (Get now (apply_ops ops) k) = Inr VNil
          else True
      | None \<Rightarrow> True)"
proof -
  have a: "fst (TTL now (apply_ops ops) k) = - 2 \<longleftrightarrow>
      fst (Get now (snd (TTL now (apply_ops ops) k)) k) = Inr VNil"
    by (simp only: TTL_minus2_iff Get_after_TTL)
  have b: "\<And>expiry. expires (apply_ops ops) k = Some expiry \<Longrightarrow> expiry < now \<Longrightarrow>
      fst (TTL now (apply_ops ops) k) = - 2"
    by (simp add: TTL_minus2_iff)
  have c: "\<And>expiry. expires (apply_ops ops) k = Some expiry \<Longrightarrow> expiry < now \<Longrightarrow>
      fst (Get now (apply_ops ops) k) = Inr VNil"
    by (simp add: Get_def isExpired_def)
  from a b c show ?thesis by (simp split: option.splits)
qed


section \<open>Re-scoring a member: the index keeps the old pair\<close>

text \<open>
  The random source of the evaluations below returns \<open>1/2\<close> at every draw, so every
  node gets level 1.
\<close>

lemmas sl_eval =
  insert_def newSkiplist_def maxLevel_def probability_def randomLevel_def node_at_def
  idx_def put_def set_forward_def set_backward_def set_score_def entries_def delete_def

lemmas zadd_eval =
  ZAdd_def Add_def empty_set_def NewMemoryStore_def zset_at_def zadd_skip_def
  zadd_added_def zadd_changed_def

text \<open>
  C1. \<open>ZADD z 1 a\<close> followed by \<open>ZADD z 2 a\<close> on an empty store: both calls return, the
  second one reports no new member, the member-to-score map holds \<open>a \<mapsto> 2\<close> alone, and
  the index holds the two pairs \<open>(1, a)\<close> and \<open>(2, a)\<close>: the member occurs twice in the
  index, and the pair \<open>(1, a)\<close> is in the index and not in the map.
\<close>

theorem zadd_rescore_leaves_old_pair:
  "do { (r1, s1, g1) \<leftarrow> ZAdd NewMemoryStore (\<lambda>_. 1 / 2) ''z''
                          [\<lparr>Score = 1, Member = ''a''\<rparr>] None;
        (r2, s2, g2) \<leftarrow> ZAdd s1 g1 ''z'' [\<lparr>Score = 2, Member = ''a''\<rparr>] None;
        z \<leftarrow> zset_at s2 ''z'';
        Some (r1, r2, dict z ''a'', dom (dict z), entries (sl z), length_sl (sl z)) }
   = Some (Inr (VInt 1), Inr (VInt 0), Some 2, {''a''},
           Some [(1, ''a''), (2, ''a'')], 2)"
  by (simp add: zadd_eval sl_eval)

text \<open>
  C2. \<open>insert(2, a)\<close> on the list that holds \<open>(1, a)\<close>: the member is present with
  another score, and the call returns true, leaves the old pair in the list beside the
  new one, and raises the length to 2.
\<close>

theorem insert_present_member_returns_true:
  "do { (b1, l1, g1) \<leftarrow> insert newSkiplist (\<lambda>_. 1 / 2) 1 ''a'';
        (b2, l2, g2) \<leftarrow> insert l1 g1 2 ''a'';
        Some (b1, entries l1, length_sl l1, b2, entries l2, length_sl l2) }
   = Some (True, Some [(1, ''a'')], 1, True, Some [(1, ''a''), (2, ''a'')], 2)"
  by (simp add: sl_eval)


section \<open>Range by score, reversed\<close>

text \<open>
  C7. On the set \<open>{(1, a), (2, b), (3, c)}\<close>, whose index is in ascending order, the
  reversed range with bounds \<open>[2, 3]\<close> is empty although \<open>b\<close> and \<open>c\<close> have their scores
  in the range, and the reversed range with bounds \<open>[1, 3]\<close> lists the members in
  ascending order, with and without scores.
\<close>

theorem range_by_score_rev_on_abc:
  "do { (s1, g1) \<leftarrow> Add empty_set (\<lambda>_. 1 / 2) ''a'' 1;
        (s2, g2) \<leftarrow> Add s1 g1 ''b'' 2;
        (s3, g3) \<leftarrow> Add s2 g2 ''c'' 3;
        r1 \<leftarrow> RangeByScore s3 2 3 True False;
        r2 \<leftarrow> RangeByScore s3 1 3 True False;
        r3 \<leftarrow> RangeByScore s3 1 3 True True;
        Some (entries (sl s3), r1, r2, r3) }
   = Some (Some [(1, ''a''), (2, ''b''), (3, ''c'')],
           [],
           [VStr ''a'', VStr ''b'', VStr ''c''],
           [VStr ''a'', VFloat 1, VStr ''b'', VFloat 2, VStr ''c'', VFloat 3])"
  by (simp add: RangeByScore_def zadd_eval sl_eval)

section \<open>DEL\<close>

text \<open>
  C4. After \<open>ZADD z 1 a\<close> on an empty store, \<open>DEL z\<close> returns 0 and leaves the key and
  its sorted set in the store: \<open>Get\<close> fails on a sorted set, the command drops the
  error and takes the key for absent.
\<close>

theorem del_keeps_sorted_set_key:
  "do { (r1, s1, g1) \<leftarrow> ZAdd NewMemoryStore (\<lambda>_. 1 / 2) ''z''
                          [\<lparr>Score = 1, Member = ''a''\<rparr>] None;
        let (r2, s2) = DelCommand_Execute now [''z''] s1;
        Some (r2, s2 = s1, ''z'' \<in> dom (data s2)) }
   = Some (Inr (VInt 0), True, True)"
  by (simp add: DelCommand_Execute_def Get_def isExpired_def zadd_eval sl_eval)

end
